theory Spec2Isabelle
  imports Main "HOL-Library.Sublist"
begin

section \<open>Python values and raw records\<close>

text \<open>
  The program of \<^verbatim>\<open>weather_automation.py\<close> fetches a JSON feed, turns it into two pandas
  frames and writes them to an SQLite file. The functions of the class
  \<open>BuienradarClient\<close> are modelled one by one, under their names; what they call in
  pandas and sqlite3 is modelled as far as the program reaches it (pandas 1 and 2, and
  sqlite3 with its defaults: implicit transactions for INSERT only, foreign keys not
  enforced unless the PRAGMA is given).

  The feed is a JSON list of objects. A cell of a pandas frame built from it holds a
  Python value. The model has the JSON null (\<open>PNone\<close>), strings, integers, and the
  missing-value marker \<open>NaN\<close> that pandas puts where a record has no such key.
  Floats other than NaN, booleans and nested values are not modelled; every column is
  read as an object column, so each cell is coerced on its own (pandas would turn a
  column of integers with missing cells into floats). Faults of the file system or of
  the database file are not modelled either.
\<close>

datatype pyval = NaN | PNone | PStr string | PInt int

text \<open>A raw record is a Python dict, written as an association list with distinct keys.\<close>

type_synonym raw_record = "(string \<times> pyval) list"

datatype error = KeyError "string list" | IntegrityError | OperationalError

datatype level = INFO | WARNING | ERROR

text \<open>One constructor for each call of the logger in the source, with the values it formats.\<close>

datatype message =
    Fetching
  | Fetched nat
  | Error_fetching
  | Unexpected_structure
  | Unexpected_error
  | Processed nat nat
  | Error_processing error
  | Setup_completed
  | Error_setup error
  | Stored_stations nat
  | Stored_measurements nat
  | Error_storing error
  | Cycle_start
  | No_data_fetched
  | Processing_failed
  | Cycle_completed

fun level_of :: "message \<Rightarrow> level" where
  "level_of Fetching = INFO"
| "level_of (Fetched n) = INFO"
| "level_of Error_fetching = ERROR"
| "level_of Unexpected_structure = ERROR"
| "level_of Unexpected_error = ERROR"
| "level_of (Processed m s) = INFO"
| "level_of (Error_processing e) = ERROR"
| "level_of Setup_completed = INFO"
| "level_of (Error_setup e) = ERROR"
| "level_of (Stored_stations n) = INFO"
| "level_of (Stored_measurements n) = INFO"
| "level_of (Error_storing e) = ERROR"
| "level_of Cycle_start = INFO"
| "level_of No_data_fetched = WARNING"
| "level_of Processing_failed = WARNING"
| "level_of Cycle_completed = INFO"

subsection \<open>String coercion\<close>

fun string_of_nat :: "nat \<Rightarrow> string" where
  "string_of_nat n =
     (if n < 10 then [char_of (48 + n)]
      else string_of_nat (n div 10) @ [char_of (48 + n mod 10)])"

declare string_of_nat.simps [simp del]

definition str_int :: "int \<Rightarrow> string" where
  "str_int i = (if i < 0 then CHR ''-'' # string_of_nat (nat (- i)) else string_of_nat (nat i))"

text \<open>
  \<open>Series.astype(str)\<close> on an object column: Python's \<open>str\<close> of each cell, also of
  a missing one.
\<close>

fun astype_str :: "pyval \<Rightarrow> string" where
  "astype_str NaN = ''nan''"
| "astype_str PNone = ''None''"
| "astype_str (PStr s) = s"
| "astype_str (PInt i) = str_int i"

section \<open>Frames\<close>

text \<open>
  The two column selections of \<open>process_data\<close> are modelled as records, one field for
  each selected column; \<open>'c\<close> is the type of a cell (a Python value in a frame, an
  SQLite value in a table).
\<close>

record 'c measurement_values =
  stationid :: 'c
  timestamp :: 'c
  temperature :: 'c
  groundtemperature :: 'c
  feeltemperature :: 'c
  windgusts :: 'c
  windspeedBft :: 'c
  humidity :: 'c
  precipitation :: 'c
  sunpower :: 'c

record 'c measurement = "'c measurement_values" +
  measurementid :: 'c

record 'c station =
  stationid :: 'c
  stationname :: 'c
  lat :: 'c
  lon :: 'c
  regio :: 'c

definition measurement_columns :: "string list" where
  "measurement_columns =
     [''stationid'', ''timestamp'', ''temperature'', ''groundtemperature'',
      ''feeltemperature'', ''windgusts'', ''windspeedBft'', ''humidity'',
      ''precipitation'', ''sunpower'']"

definition station_columns :: "string list" where
  "station_columns = [''stationid'', ''stationname'', ''lat'', ''lon'', ''regio'']"

text \<open>
  \<open>drop_duplicates\<close> keeps the first row of each group of equal rows. pandas compares
  rows through per-column factorisation, where every missing value (None or NaN) gets the
  same code, so the comparison goes through a key that identifies the two.
\<close>

fun drop_duplicates_by :: "('a \<Rightarrow> 'k) \<Rightarrow> 'k list \<Rightarrow> 'a list \<Rightarrow> 'a list" where
  "drop_duplicates_by key seen [] = []"
| "drop_duplicates_by key seen (x # xs) =
     (if key x \<in> set seen then drop_duplicates_by key seen xs
      else x # drop_duplicates_by key (key x # seen) xs)"

fun na_key :: "pyval \<Rightarrow> pyval" where
  "na_key PNone = NaN"
| "na_key v = v"

definition measurement_key :: "pyval measurement_values \<Rightarrow> pyval measurement_values" where
  "measurement_key r =
     \<lparr>measurement_values.stationid = na_key (measurement_values.stationid r),
      timestamp = na_key (timestamp r),
      temperature = na_key (temperature r),
      groundtemperature = na_key (groundtemperature r),
      feeltemperature = na_key (feeltemperature r),
      windgusts = na_key (windgusts r),
      windspeedBft = na_key (windspeedBft r),
      humidity = na_key (humidity r),
      precipitation = na_key (precipitation r),
      sunpower = na_key (sunpower r)\<rparr>"

definition station_key :: "pyval station \<Rightarrow> pyval station" where
  "station_key r =
     \<lparr>stationid = na_key (station.stationid r),
      stationname = na_key (stationname r),
      lat = na_key (lat r),
      lon = na_key (lon r),
      regio = na_key (regio r)\<rparr>"

text \<open>
  \<open>pd.DataFrame(raw_data)\<close>: the columns are the keys of all records, in the order of
  their first appearance; a record without a key gets NaN in that column.
\<close>

definition frame_columns :: "raw_record list \<Rightarrow> string list" where
  "frame_columns raw_data = drop_duplicates_by (\<lambda>c. c) [] (concat (map (map fst) raw_data))"

definition cell :: "raw_record \<Rightarrow> string \<Rightarrow> pyval" where
  "cell r c = (case map_of r c of None \<Rightarrow> NaN | Some v \<Rightarrow> v)"

text \<open>
  \<open>data\<close> subscripted with a list of column names: KeyError, naming the absent ones, unless every selected name
  is a column of the frame; otherwise the rows restricted to the selection.
\<close>

definition getitem :: "string list \<Rightarrow> (raw_record \<Rightarrow> 'row) \<Rightarrow> raw_record list \<Rightarrow> error + 'row list" where
  "getitem cols project raw_data =
     (let absent = filter (\<lambda>c. c \<notin> set (frame_columns raw_data)) cols
      in if absent = [] then Inr (map project raw_data) else Inl (KeyError absent))"

definition measurement_row :: "raw_record \<Rightarrow> pyval measurement_values" where
  "measurement_row r =
     \<lparr>measurement_values.stationid = cell r ''stationid'',
      timestamp = cell r ''timestamp'',
      temperature = cell r ''temperature'',
      groundtemperature = cell r ''groundtemperature'',
      feeltemperature = cell r ''feeltemperature'',
      windgusts = cell r ''windgusts'',
      windspeedBft = cell r ''windspeedBft'',
      humidity = cell r ''humidity'',
      precipitation = cell r ''precipitation'',
      sunpower = cell r ''sunpower''\<rparr>"

definition station_row :: "raw_record \<Rightarrow> pyval station" where
  "station_row r =
     \<lparr>stationid = cell r ''stationid'',
      stationname = cell r ''stationname'',
      lat = cell r ''lat'',
      lon = cell r ''lon'',
      regio = cell r ''regio''\<rparr>"

text \<open>The assignment of the new column \<open>measurementid\<close> (source lines 103 to 105).\<close>

definition with_measurementid :: "pyval measurement_values \<Rightarrow> pyval measurement" where
  "with_measurementid r =
     measurement_values.extend r
       (measurement.fields
          (PStr (astype_str (measurement_values.stationid r) @ ''_'' @ astype_str (timestamp r))))"

section \<open>process_data\<close>

text \<open>
  The result is the pair the source returns, with the lines it logs. Every exception
  raised in the body is caught: the error is logged and the pair (None, None) returned.
\<close>

definition process_data ::
  "raw_record list option \<Rightarrow>
     (pyval measurement list option \<times> pyval station list option) \<times> message list" where
  "process_data raw_data =
     (case raw_data of
        None \<Rightarrow> ((None, None), [])
      | Some [] \<Rightarrow> ((None, None), [])
      | Some (r # rs) \<Rightarrow>
          (case getitem measurement_columns measurement_row (r # rs) of
             Inl e \<Rightarrow> ((None, None), [Error_processing e])
           | Inr selected \<Rightarrow>
               (let measurements =
                      map with_measurementid (drop_duplicates_by measurement_key [] selected)
                in case getitem station_columns station_row (r # rs) of
                     Inl e \<Rightarrow> ((None, None), [Error_processing e])
                   | Inr selected' \<Rightarrow>
                       (let stations = drop_duplicates_by station_key [] selected'
                        in ((Some measurements, Some stations),
                            [Processed (length measurements) (length stations)])))))"

section \<open>The SQLite store\<close>

text \<open>
  An SQLite value after binding: pandas sends NaN and None as NULL, a string as text
  and an integer as an integer; a column of declared type TEXT turns an integer into its
  decimal text. The conversions of the REAL and INTEGER columns are not modelled: no
  constraint reads those columns.
\<close>

datatype sqlval = Null | Text string | Integer int

fun sql_value :: "string \<Rightarrow> pyval \<Rightarrow> sqlval" where
  "sql_value ty NaN = Null"
| "sql_value ty PNone = Null"
| "sql_value ty (PStr s) = Text s"
| "sql_value ty (PInt i) = (if ty = ''TEXT'' then Text (str_int i) else Integer i)"

record foreign_key =
  fk_column :: string
  fk_parent_table :: string
  fk_parent_column :: string
  fk_on_delete_cascade :: bool

record table_schema =
  columns :: "(string \<times> string) list"
  primary_key :: "string option"
  not_null :: "string list"
  foreign_keys :: "foreign_key list"

record index_def =
  index_name :: string
  index_columns :: "string list"
  index_unique :: bool

text \<open>A table owns its indexes: DROP TABLE removes them with the table.\<close>

record 'r table =
  schema :: table_schema
  indexes :: "index_def list"
  rows :: "'r list"

record database =
  stations :: "sqlval station table option"
  measurements :: "sqlval measurement table option"

definition measurement_column :: "string \<Rightarrow> sqlval measurement \<Rightarrow> sqlval" where
  "measurement_column c r =
     (if c = ''measurementid'' then measurementid r
      else if c = ''stationid'' then measurement_values.stationid r
      else if c = ''timestamp'' then timestamp r
      else if c = ''temperature'' then temperature r
      else if c = ''groundtemperature'' then groundtemperature r
      else if c = ''feeltemperature'' then feeltemperature r
      else if c = ''windgusts'' then windgusts r
      else if c = ''windspeedBft'' then windspeedBft r
      else if c = ''humidity'' then humidity r
      else if c = ''precipitation'' then precipitation r
      else if c = ''sunpower'' then sunpower r
      else Null)"

definition station_column :: "string \<Rightarrow> sqlval station \<Rightarrow> sqlval" where
  "station_column c r =
     (if c = ''stationid'' then station.stationid r
      else if c = ''stationname'' then stationname r
      else if c = ''lat'' then lat r
      else if c = ''lon'' then lon r
      else if c = ''regio'' then regio r
      else Null)"

definition declared_type :: "table_schema \<Rightarrow> string \<Rightarrow> string" where
  "declared_type s c = (case map_of (columns s) c of None \<Rightarrow> [] | Some ty \<Rightarrow> ty)"

definition bind_measurement :: "table_schema \<Rightarrow> pyval measurement \<Rightarrow> sqlval measurement" where
  "bind_measurement s r =
     \<lparr>measurement_values.stationid =
        sql_value (declared_type s ''stationid'') (measurement_values.stationid r),
      timestamp = sql_value (declared_type s ''timestamp'') (timestamp r),
      temperature = sql_value (declared_type s ''temperature'') (temperature r),
      groundtemperature = sql_value (declared_type s ''groundtemperature'') (groundtemperature r),
      feeltemperature = sql_value (declared_type s ''feeltemperature'') (feeltemperature r),
      windgusts = sql_value (declared_type s ''windgusts'') (windgusts r),
      windspeedBft = sql_value (declared_type s ''windspeedBft'') (windspeedBft r),
      humidity = sql_value (declared_type s ''humidity'') (humidity r),
      precipitation = sql_value (declared_type s ''precipitation'') (precipitation r),
      sunpower = sql_value (declared_type s ''sunpower'') (sunpower r),
      measurementid = sql_value (declared_type s ''measurementid'') (measurementid r)\<rparr>"

definition bind_station :: "table_schema \<Rightarrow> pyval station \<Rightarrow> sqlval station" where
  "bind_station s r =
     \<lparr>stationid = sql_value (declared_type s ''stationid'') (station.stationid r),
      stationname = sql_value (declared_type s ''stationname'') (stationname r),
      lat = sql_value (declared_type s ''lat'') (lat r),
      lon = sql_value (declared_type s ''lon'') (lon r),
      regio = sql_value (declared_type s ''regio'') (regio r)\<rparr>"

subsection \<open>Constraints and INSERT\<close>

text \<open>
  A uniqueness constraint over the columns \<open>cs\<close> (a PRIMARY KEY on a TEXT column is one)
  rejects a row whose values in \<open>cs\<close> are all non-NULL and equal those of a stored row.
\<close>

definition unique_conflict ::
  "(string \<Rightarrow> 'r \<Rightarrow> sqlval) \<Rightarrow> string list \<Rightarrow> 'r list \<Rightarrow> 'r \<Rightarrow> bool" where
  "unique_conflict col cs stored r =
     (Null \<notin> set (map (\<lambda>c. col c r) cs) \<and>
      map (\<lambda>c. col c r) cs \<in> set (map (\<lambda>r'. map (\<lambda>c. col c r') cs) stored))"

definition violates :: "(string \<Rightarrow> 'r \<Rightarrow> sqlval) \<Rightarrow> 'r table \<Rightarrow> 'r \<Rightarrow> bool" where
  "violates col t r =
     (list_ex (\<lambda>c. col c r = Null) (not_null (schema t)) \<or>
      (case primary_key (schema t) of
         None \<Rightarrow> False
       | Some c \<Rightarrow> unique_conflict col [c] (rows t) r) \<or>
      list_ex (\<lambda>i. index_unique i \<and> unique_conflict col (index_columns i) (rows t) r)
        (indexes t))"

text \<open>
  \<open>executemany\<close> of a plain INSERT statement, one row after the other inside one
  transaction. The first row that breaks a constraint raises IntegrityError; the caller
  rolls the transaction back, so no row of the batch stays.
\<close>

fun executemany :: "(string \<Rightarrow> 'r \<Rightarrow> sqlval) \<Rightarrow> 'r table \<Rightarrow> 'r list \<Rightarrow> error + 'r table" where
  "executemany col t [] = Inr t"
| "executemany col t (r # rs) =
     (if violates col t r then Inl IntegrityError
      else executemany col (t\<lparr>rows := rows t @ [r]\<rparr>) rs)"

subsection \<open>DataFrame.to_sql\<close>

datatype if_exists = Replace | Append

text \<open>
  The table pandas creates has the columns of the frame with the types of the \<open>dtype\<close>
  dict and no constraint (pandas infers a type for a column the dict leaves out; every
  column written by this program is listed).
\<close>

definition pandas_schema :: "(string \<times> string) list \<Rightarrow> string list \<Rightarrow> table_schema" where
  "pandas_schema dtype cols =
     \<lparr>columns = map (\<lambda>c. (c, case map_of dtype c of None \<Rightarrow> ''TEXT'' | Some ty \<Rightarrow> ty)) cols,
      primary_key = None,
      not_null = [],
      foreign_keys = []\<rparr>"

text \<open>
  \<open>frame.to_sql(name, conn, if_exists=mode, index=False, dtype=dtype)\<close> on the slot of the
  table \<open>name\<close>. With \<open>Replace\<close> an existing table is dropped and created anew; a missing
  table is created; both are committed before the rows are inserted. The result is the
  slot afterwards and the exception raised, if any. The connection of \<open>store_data\<close> never
  switches foreign-key enforcement on, so dropping \<open>stations\<close> deletes nothing elsewhere.
\<close>

definition to_sql ::
  "(string \<Rightarrow> 'r \<Rightarrow> sqlval) \<Rightarrow> (table_schema \<Rightarrow> 'f \<Rightarrow> 'r) \<Rightarrow> string list \<Rightarrow>
   'r table option \<Rightarrow> 'f list \<Rightarrow> if_exists \<Rightarrow> (string \<times> string) list \<Rightarrow>
   'r table option \<times> error option" where
  "to_sql col bind cols slot frame mode dtype =
     (let created = \<lparr>schema = pandas_schema dtype cols, indexes = [], rows = []\<rparr>;
          t = (case slot of
                 None \<Rightarrow> created
               | Some existing \<Rightarrow> (if mode = Replace then created else existing))
      in if \<not> set cols \<subseteq> set (map fst (columns (schema t)))
         then (Some t, Some OperationalError)
         else (case executemany col t (map (bind (schema t)) frame) of
                 Inl e \<Rightarrow> (Some t, Some e)
               | Inr t' \<Rightarrow> (Some t', None)))"

section \<open>setup_database\<close>

definition stations_dtype :: "(string \<times> string) list" where
  "stations_dtype =
     [(''stationid'', ''TEXT''), (''stationname'', ''TEXT''), (''lat'', ''REAL''),
      (''lon'', ''REAL''), (''regio'', ''TEXT'')]"

definition measurements_dtype :: "(string \<times> string) list" where
  "measurements_dtype =
     [(''measurementid'', ''TEXT''), (''stationid'', ''TEXT''), (''timestamp'', ''TEXT''),
      (''temperature'', ''REAL''), (''groundtemperature'', ''REAL''),
      (''feeltemperature'', ''REAL''), (''windgusts'', ''REAL''),
      (''windspeedBft'', ''INTEGER''), (''humidity'', ''REAL''),
      (''precipitation'', ''REAL''), (''sunpower'', ''REAL'')]"

text \<open>The two CREATE TABLE statements (source lines 129 to 155).\<close>

definition stations_ddl :: table_schema where
  "stations_ddl =
     \<lparr>columns =
        [(''stationid'', ''TEXT''), (''stationname'', ''TEXT''), (''lat'', ''REAL''),
         (''lon'', ''REAL''), (''regio'', ''TEXT'')],
      primary_key = Some ''stationid'',
      not_null = [],
      foreign_keys = []\<rparr>"

definition measurements_ddl :: table_schema where
  "measurements_ddl =
     \<lparr>columns =
        [(''measurementid'', ''TEXT''), (''stationid'', ''TEXT''), (''timestamp'', ''TEXT''),
         (''temperature'', ''REAL''), (''groundtemperature'', ''REAL''),
         (''feeltemperature'', ''REAL''), (''windgusts'', ''REAL''),
         (''windspeedBft'', ''INTEGER''), (''humidity'', ''REAL''),
         (''precipitation'', ''REAL''), (''sunpower'', ''REAL'')],
      primary_key = Some ''measurementid'',
      not_null = [''stationid'', ''timestamp''],
      foreign_keys =
        [\<lparr>fk_column = ''stationid'', fk_parent_table = ''stations'',
          fk_parent_column = ''stationid'', fk_on_delete_cascade = True\<rparr>]\<rparr>"

definition uq_measurements_stationid_timestamp :: index_def where
  "uq_measurements_stationid_timestamp =
     \<lparr>index_name = ''uq_measurements_stationid_timestamp'',
      index_columns = [''stationid'', ''timestamp''],
      index_unique = True\<rparr>"

definition idx_measurements_stationid :: index_def where
  "idx_measurements_stationid =
     \<lparr>index_name = ''idx_measurements_stationid'',
      index_columns = [''stationid''],
      index_unique = False\<rparr>"

definition idx_measurements_timestamp :: index_def where
  "idx_measurements_timestamp =
     \<lparr>index_name = ''idx_measurements_timestamp'',
      index_columns = [''timestamp''],
      index_unique = False\<rparr>"

definition create_table_if_not_exists :: "table_schema \<Rightarrow> 'r table option \<Rightarrow> 'r table option" where
  "create_table_if_not_exists ddl slot =
     (case slot of
        None \<Rightarrow> Some \<lparr>schema = ddl, indexes = [], rows = []\<rparr>
      | Some t \<Rightarrow> Some t)"

definition index_names :: "database \<Rightarrow> string list" where
  "index_names db =
     (case stations db of None \<Rightarrow> [] | Some t \<Rightarrow> map index_name (indexes t)) @
     (case measurements db of None \<Rightarrow> [] | Some t \<Rightarrow> map index_name (indexes t))"

text \<open>
  CREATE [UNIQUE] INDEX IF NOT EXISTS ... ON measurements(...): nothing happens when an
  index of that name exists; otherwise the table and the columns must exist, and a unique
  index is refused when two stored rows agree on its columns (NULLs apart).
\<close>

definition create_index_if_not_exists :: "index_def \<Rightarrow> database \<Rightarrow> error + database" where
  "create_index_if_not_exists i db =
     (if index_name i \<in> set (index_names db) then Inr db
      else (case measurements db of
              None \<Rightarrow> Inl OperationalError
            | Some t \<Rightarrow>
                if \<not> set (index_columns i) \<subseteq> set (map fst (columns (schema t)))
                then Inl OperationalError
                else if index_unique i \<and>
                        \<not> distinct (filter (\<lambda>k. Null \<notin> set k)
                              (map (\<lambda>r. map (\<lambda>c. measurement_column c r) (index_columns i)) (rows t)))
                then Inl IntegrityError
                else Inr (db\<lparr>measurements := Some (t\<lparr>indexes := indexes t @ [i]\<rparr>)\<rparr>)))"

text \<open>
  The statements run one after the other; a data definition statement is committed as
  soon as it has run, so an exception leaves the earlier ones in place. The exception is
  caught and logged. The PRAGMA of this connection has no effect on these statements.
\<close>

definition setup_database :: "database \<Rightarrow> database \<times> message list" where
  "setup_database db =
     (let db1 = db\<lparr>stations := create_table_if_not_exists stations_ddl (stations db)\<rparr>;
          db2 = db1\<lparr>measurements := create_table_if_not_exists measurements_ddl (measurements db1)\<rparr>
      in case create_index_if_not_exists uq_measurements_stationid_timestamp db2 of
           Inl e \<Rightarrow> (db2, [Error_setup e])
         | Inr db3 \<Rightarrow>
             (case create_index_if_not_exists idx_measurements_stationid db3 of
                Inl e \<Rightarrow> (db3, [Error_setup e])
              | Inr db4 \<Rightarrow>
                  (case create_index_if_not_exists idx_measurements_timestamp db4 of
                     Inl e \<Rightarrow> (db4, [Error_setup e])
                   | Inr db5 \<Rightarrow> (db5, [Setup_completed]))))"

section \<open>store_data\<close>

text \<open>
  The stations frame replaces the table, then the measurements frame is appended. An
  exception in either write skips what follows and is caught and logged.
\<close>

definition store_data ::
  "database \<Rightarrow> pyval measurement list option \<Rightarrow> pyval station list option \<Rightarrow>
   database \<times> message list" where
  "store_data db measurements_frame stations_frame =
     (let (db1, raised, logged) =
            (case stations_frame of
               Some (s # ss) \<Rightarrow>
                 (case to_sql station_column bind_station station_columns (stations db)
                         (s # ss) Replace stations_dtype of
                    (slot, Some e) \<Rightarrow> (db\<lparr>stations := slot\<rparr>, Some e, [])
                  | (slot, None) \<Rightarrow>
                      (db\<lparr>stations := slot\<rparr>, None, [Stored_stations (length (s # ss))]))
             | _ \<Rightarrow> (db, None, []))
      in case raised of
           Some e \<Rightarrow> (db1, logged @ [Error_storing e])
         | None \<Rightarrow>
             (case measurements_frame of
                Some (m # ms) \<Rightarrow>
                  (case to_sql measurement_column bind_measurement
                          (measurement_columns @ [''measurementid'']) (measurements db1)
                          (m # ms) Append measurements_dtype of
                     (slot, Some e) \<Rightarrow> (db1\<lparr>measurements := slot\<rparr>, logged @ [Error_storing e])
                   | (slot, None) \<Rightarrow>
                       (db1\<lparr>measurements := slot\<rparr>,
                        logged @ [Stored_measurements (length (m # ms))]))
              | _ \<Rightarrow> (db1, logged)))"

section \<open>The collection cycle\<close>

text \<open>
  What the GET request and the two subscripts of \<open>fetch_weather_data\<close> can come to: an
  exception of \<open>requests\<close>, a KeyError, another exception, or the list under
  \<open>data['actual']['stationmeasurements']\<close> (a list of objects; other JSON values
  there are not modelled).
\<close>

datatype response =
    Request_exception
  | Key_missing
  | Other_exception
  | Station_measurements "raw_record list"

fun fetch_weather_data :: "response \<Rightarrow> raw_record list option \<times> message list" where
  "fetch_weather_data (Station_measurements station_measurements) =
     (Some station_measurements, [Fetching, Fetched (length station_measurements)])"
| "fetch_weather_data Request_exception = (None, [Fetching, Error_fetching])"
| "fetch_weather_data Key_missing = (None, [Fetching, Unexpected_structure])"
| "fetch_weather_data Other_exception = (None, [Fetching, Unexpected_error])"

text \<open>\<open>not raw_data\<close> holds of None and of the empty list.\<close>

fun falsy :: "'a list option \<Rightarrow> bool" where
  "falsy None = True"
| "falsy (Some []) = True"
| "falsy (Some (x # xs)) = False"

definition run_collection_cycle :: "response \<Rightarrow> database \<Rightarrow> bool \<times> database \<times> message list" where
  "run_collection_cycle resp db =
     (let (raw_data, log1) = fetch_weather_data resp
      in if falsy raw_data then (False, db, Cycle_start # log1 @ [No_data_fetched])
         else (let ((measurements_frame, stations_frame), log2) = process_data raw_data
               in if measurements_frame = None \<or> stations_frame = None
                  then (False, db, Cycle_start # log1 @ log2 @ [Processing_failed])
                  else (let (db', log3) = store_data db measurements_frame stations_frame
                        in (True, db', Cycle_start # log1 @ log2 @ log3 @ [Cycle_completed]))))"

section \<open>Observers, iterated setup and example data\<close>

text \<open>
  Some record of the input has the key \<open>c\<close>: the frame has the column \<open>c\<close>.
\<close>

definition has_column :: "raw_record list \<Rightarrow> string \<Rightarrow> bool" where
  "has_column raw_data c = (\<exists>r\<in>set raw_data. c \<in> fst ` set r)"

text \<open>
  The rows of the measurements table; none when the table does not exist.
\<close>

definition measurement_rows :: "database \<Rightarrow> sqlval measurement list" where
  "measurement_rows db = (case measurements db of None \<Rightarrow> [] | Some t \<Rightarrow> rows t)"

text \<open>
  N calls of \<open>setup_database\<close> in a row, with everything they log.
\<close>

fun setup_times :: "nat \<Rightarrow> database \<Rightarrow> database \<times> message list" where
  "setup_times 0 db = (db, [])"
| "setup_times (Suc n) db =
     (let (db', logged) = setup_database db; (db'', logged') = setup_times n db'
      in (db'', logged @ logged'))"

text \<open>
  A database file without tables, and the schema the statements of \<open>setup_database\<close> describe.
\<close>

definition empty_database :: database where
  "empty_database = \<lparr>stations = None, measurements = None\<rparr>"

definition schema_after_setup :: database where
  "schema_after_setup =
     \<lparr>stations = Some \<lparr>schema = stations_ddl, indexes = [], rows = []\<rparr>,
      measurements =
        Some \<lparr>schema = measurements_ddl,
              indexes = [uq_measurements_stationid_timestamp, idx_measurements_stationid,
                         idx_measurements_timestamp],
              rows = []\<rparr>\<rparr>"

text \<open>
  The two halves of \<open>setup_database\<close>, named for the proofs: the CREATE TABLE statements and
  the CREATE INDEX statements.
\<close>

definition with_tables :: "database \<Rightarrow> database" where
  "with_tables db =
     db\<lparr>stations := create_table_if_not_exists stations_ddl (stations db),
        measurements := create_table_if_not_exists measurements_ddl (measurements db)\<rparr>"

definition create_indexes :: "database \<Rightarrow> database \<times> message list" where
  "create_indexes db2 =
     (case create_index_if_not_exists uq_measurements_stationid_timestamp db2 of
           Inl e \<Rightarrow> (db2, [Error_setup e])
         | Inr db3 \<Rightarrow>
             (case create_index_if_not_exists idx_measurements_stationid db3 of
                Inl e \<Rightarrow> (db3, [Error_setup e])
              | Inr db4 \<Rightarrow>
                  (case create_index_if_not_exists idx_measurements_timestamp db4 of
                     Inl e \<Rightarrow> (db4, [Error_setup e])
                   | Inr db5 \<Rightarrow> (db5, [Setup_completed]))))"

text \<open>
  Example data: two complete records of the feed, the second one without its
  \<open>temperature\<close>, the first one without its \<open>regio\<close>, and the store after one run of
  \<open>process_data\<close> and \<open>store_data\<close> on the first record.
\<close>

definition example_record :: raw_record where
  "example_record =
     [(''stationid'', PStr ''06240''), (''timestamp'', PStr ''2024-01-01T10:00:00''),
      (''temperature'', PInt 5), (''groundtemperature'', PInt 4), (''feeltemperature'', PInt 3),
      (''windgusts'', PInt 7), (''windspeedBft'', PInt 2), (''humidity'', PInt 80),
      (''precipitation'', PInt 0), (''sunpower'', PInt 10), (''stationname'', PStr ''Schiphol''),
      (''lat'', PInt 52), (''lon'', PInt 4), (''regio'', PStr ''Amsterdam'')]"

definition second_record :: raw_record where
  "second_record =
     [(''stationid'', PStr ''06260''), (''timestamp'', PStr ''2024-01-01T10:00:00''),
      (''temperature'', PInt 6), (''groundtemperature'', PInt 5), (''feeltemperature'', PInt 4),
      (''windgusts'', PInt 9), (''windspeedBft'', PInt 3), (''humidity'', PInt 75),
      (''precipitation'', PInt 0), (''sunpower'', PInt 12), (''stationname'', PStr ''De Bilt''),
      (''lat'', PInt 52), (''lon'', PInt 5), (''regio'', PStr ''Utrecht'')]"


definition record_without_regio :: raw_record where
  "record_without_regio = filter (\<lambda>kv. fst kv \<noteq> ''regio'') example_record"

definition stored_once :: database where
  "stored_once =
     fst (store_data schema_after_setup
            (fst (fst (process_data (Some [example_record]))))
            (snd (fst (process_data (Some [example_record])))))"

section \<open>Properties\<close>

subsection \<open>Frames and process_data\<close>


lemma drop_duplicates_by_set:
  "key ` set (drop_duplicates_by key seen xs) = key ` set xs - set seen"
  by (induction xs arbitrary: seen) auto

lemma drop_duplicates_by_nonempty: "xs \<noteq> [] \<Longrightarrow> drop_duplicates_by key [] xs \<noteq> []"
  by (cases xs) auto

lemma set_frame_columns: "set (frame_columns raw_data) = (\<Union>r\<in>set raw_data. fst ` set r)"
  using drop_duplicates_by_set [of "\<lambda>c. c" "[]" "concat (map (map fst) raw_data)"]
  by (simp add: frame_columns_def)

lemma getitem_Inr:
  "\<forall>c\<in>set cols. has_column raw_data c \<Longrightarrow> getitem cols project raw_data = Inr (map project raw_data)"
  by (auto simp: getitem_def set_frame_columns has_column_def filter_empty_conv)

lemma getitem_Inl:
  "\<not> (\<forall>c\<in>set cols. has_column raw_data c) \<Longrightarrow>
   getitem cols project raw_data = Inl (KeyError (filter (\<lambda>c. \<not> has_column raw_data c) cols))"
  by (auto simp: getitem_def set_frame_columns has_column_def filter_empty_conv Let_def)

lemma process_data_present:
  assumes "raw_data \<noteq> []" "\<forall>c\<in>set (measurement_columns @ station_columns). has_column raw_data c"
  shows "process_data (Some raw_data) =
     ((Some (map with_measurementid (drop_duplicates_by measurement_key [] (map measurement_row raw_data))),
       Some (drop_duplicates_by station_key [] (map station_row raw_data))),
      [Processed (length (drop_duplicates_by measurement_key [] (map measurement_row raw_data)))
         (length (drop_duplicates_by station_key [] (map station_row raw_data)))])"
proof -
  obtain r rs where raw: "raw_data = r # rs" using assms(1) by (cases raw_data) auto
  have m: "getitem measurement_columns measurement_row raw_data = Inr (map measurement_row raw_data)"
    using assms(2) by (intro getitem_Inr) auto
  have s: "getitem station_columns station_row raw_data = Inr (map station_row raw_data)"
    using assms(2) by (intro getitem_Inr) auto
  show ?thesis
    using m s unfolding raw by (simp add: process_data_def Let_def)
qed

lemma process_data_absent:
  assumes "raw_data \<noteq> []" "\<not> (\<forall>c\<in>set (measurement_columns @ station_columns). has_column raw_data c)"
  shows "\<exists>cs. cs \<noteq> [] \<and> process_data (Some raw_data) = ((None, None), [Error_processing (KeyError cs)])"
proof -
  obtain r rs where raw: "raw_data = r # rs" using assms(1) by (cases raw_data) auto
  show ?thesis
  proof (cases "\<forall>c\<in>set measurement_columns. has_column raw_data c")
    case False
    then have "getitem measurement_columns measurement_row raw_data
        = Inl (KeyError (filter (\<lambda>c. \<not> has_column raw_data c) measurement_columns))"
      by (rule getitem_Inl)
    moreover have "filter (\<lambda>c. \<not> has_column raw_data c) measurement_columns \<noteq> []"
      using False by (auto simp: filter_empty_conv)
    ultimately show ?thesis unfolding raw by (simp add: process_data_def)
  next
    case True
    then have m: "getitem measurement_columns measurement_row raw_data = Inr (map measurement_row raw_data)"
      by (rule getitem_Inr)
    from True assms(2) have F: "\<not> (\<forall>c\<in>set station_columns. has_column raw_data c)" by auto
    then have "getitem station_columns station_row raw_data
        = Inl (KeyError (filter (\<lambda>c. \<not> has_column raw_data c) station_columns))"
      by (rule getitem_Inl)
    moreover have "filter (\<lambda>c. \<not> has_column raw_data c) station_columns \<noteq> []"
      using F by (auto simp: filter_empty_conv)
    ultimately show ?thesis using m unfolding raw by (simp add: process_data_def Let_def)
  qed
qed

subsection \<open>INSERT and to_sql\<close>

lemma executemany_Inr:
  "executemany col t rs = Inr t' \<Longrightarrow> t' = t\<lparr>rows := rows t @ rs\<rparr>"
proof (induction rs arbitrary: t)
  case Nil
  then show ?case by simp
next
  case (Cons r rs)
  from Cons.prems have "executemany col (t\<lparr>rows := rows t @ [r]\<rparr>) rs = Inr t'"
    by (simp split: if_splits)
  from Cons.IH [OF this] show ?case by simp
qed

lemma violates_unconstrained:
  "not_null (schema t) = [] \<Longrightarrow> primary_key (schema t) = None \<Longrightarrow> indexes t = [] \<Longrightarrow>
   \<not> violates col t r"
  by (simp add: violates_def)

lemma executemany_unconstrained:
  "not_null (schema t) = [] \<Longrightarrow> primary_key (schema t) = None \<Longrightarrow> indexes t = [] \<Longrightarrow>
   executemany col t rs = Inr (t\<lparr>rows := rows t @ rs\<rparr>)"
  by (induction rs arbitrary: t) (auto simp: violates_unconstrained)

lemma columns_pandas_schema: "fst ` set (columns (pandas_schema dtype cols)) = set cols"
  by (force simp: pandas_schema_def)

lemma pandas_schema_unconstrained:
  "not_null (pandas_schema dtype cols) = []" "primary_key (pandas_schema dtype cols) = None"
  by (simp_all add: pandas_schema_def)

lemma to_sql_created:
  "slot = None \<or> mode = Replace \<Longrightarrow>
   to_sql col bind cols slot frame mode dtype =
     (Some \<lparr>schema = pandas_schema dtype cols, indexes = [],
            rows = map (bind (pandas_schema dtype cols)) frame\<rparr>, None)"
  by (cases slot)
     (simp_all add: to_sql_def Let_def columns_pandas_schema executemany_unconstrained
        pandas_schema_unconstrained)

lemma to_sql_append:
  "to_sql col bind cols (Some t) frame Append dtype = (slot, raised) \<Longrightarrow>
   (raised \<noteq> None \<and> slot = Some t) \<or>
   (raised = None \<and> slot = Some (t\<lparr>rows := rows t @ map (bind (schema t)) frame\<rparr>) \<and>
    set cols \<subseteq> set (map fst (columns (schema t))) \<and>
    executemany col t (map (bind (schema t)) frame) =
      Inr (t\<lparr>rows := rows t @ map (bind (schema t)) frame\<rparr>))"
  by (auto simp: to_sql_def Let_def split: if_splits sum.splits dest: executemany_Inr)

lemma stations_store_data:
  "stations (fst (store_data db measurements_frame stations_frame)) =
     (case stations_frame of
        Some (s # ss) \<Rightarrow>
          Some \<lparr>schema = pandas_schema stations_dtype station_columns, indexes = [],
                rows = map (bind_station (pandas_schema stations_dtype station_columns)) (s # ss)\<rparr>
      | _ \<Rightarrow> stations db)"
  by (auto simp: store_data_def to_sql_created split: option.splits list.splits prod.splits)

lemma measurements_store_data:
  "measurements (fst (store_data db measurements_frame stations_frame)) =
     (case measurements_frame of
        Some (m # ms) \<Rightarrow>
          fst (to_sql measurement_column bind_measurement (measurement_columns @ [''measurementid''])
                 (measurements db) (m # ms) Append measurements_dtype)
      | _ \<Rightarrow> measurements db)"
  by (auto simp: store_data_def to_sql_created split: option.splits list.splits prod.splits)

subsection \<open>What process_data returns\<close>

lemma process_data_cases:
  "process_data raw_data = ((None, None), []) \<or>
   (\<exists>cs. process_data raw_data = ((None, None), [Error_processing (KeyError cs)])) \<or>
   (\<exists>raw. raw_data = Some raw \<and> raw \<noteq> [] \<and>
      (\<forall>c\<in>set (measurement_columns @ station_columns). has_column raw c) \<and>
      process_data raw_data =
        ((Some (map with_measurementid (drop_duplicates_by measurement_key [] (map measurement_row raw))),
          Some (drop_duplicates_by station_key [] (map station_row raw))),
         [Processed (length (drop_duplicates_by measurement_key [] (map measurement_row raw)))
            (length (drop_duplicates_by station_key [] (map station_row raw)))]))"
proof (cases raw_data)
  case None
  then show ?thesis by (simp add: process_data_def)
next
  case (Some raw)
  show ?thesis
  proof (cases "raw = []")
    case True
    with Some show ?thesis by (simp add: process_data_def)
  next
    case False
    show ?thesis
    proof (cases "\<forall>c\<in>set (measurement_columns @ station_columns). has_column raw c")
      case True
      from process_data_present [OF False True] Some False True show ?thesis by blast
    next
      case F: False
      from process_data_absent [OF False F] Some show ?thesis by blast
    qed
  qed
qed

lemma measurementid_with_measurementid:
  "measurementid (with_measurementid r) =
     PStr (astype_str (measurement_values.stationid r) @ ''_'' @ astype_str (timestamp r))"
  by (simp add: with_measurementid_def measurement_values.extend_def measurement.fields_def)

lemma process_data_frames:
  assumes "process_data raw_data = ((Some ms, sf), logged)"
  shows "ms \<noteq> [] \<and> (\<forall>m\<in>set ms. \<exists>s. measurementid m = PStr s)"
  using process_data_cases [of raw_data] assms
  by (auto simp: drop_duplicates_by_nonempty measurementid_with_measurementid)

lemma process_data_None:
  assumes "process_data raw_data = ((None, sf), logged)"
  shows "sf = None"
  using process_data_cases [of raw_data] assms by auto

subsection \<open>Storing the same frames twice\<close>

lemma violates_primary_key:
  "primary_key (schema t) = Some c \<Longrightarrow> r \<in> set (rows t) \<Longrightarrow> col c r \<noteq> Null \<Longrightarrow> violates col t r"
  by (auto simp: violates_def unique_conflict_def)

lemma measurementid_bind:
  "measurementid m = PStr s \<Longrightarrow>
   measurement_column ''measurementid'' (bind_measurement sch m) = Text s"
  by (simp add: measurement_column_def bind_measurement_def)

lemma append_twice:
  assumes pk: "primary_key (schema t) = Some ''measurementid''"
    and ids: "\<forall>m\<in>set frame. \<exists>s. measurementid m = PStr s"
    and ne: "frame \<noteq> []"
    and first: "to_sql measurement_column bind_measurement cols (Some t) frame Append dtype = (slot, raised)"
  shows "fst (to_sql measurement_column bind_measurement cols slot frame Append dtype) = slot"
proof -
  from to_sql_append [OF first] consider
      (failed) "raised \<noteq> None" "slot = Some t"
    | (stored) "slot = Some (t\<lparr>rows := rows t @ map (bind_measurement (schema t)) frame\<rparr>)"
        "set cols \<subseteq> set (map fst (columns (schema t)))"
    by blast
  then show ?thesis
  proof cases
    case failed
    with first show ?thesis by simp
  next
    case stored
    let ?t1 = "t\<lparr>rows := rows t @ map (bind_measurement (schema t)) frame\<rparr>"
    obtain m ms where frame: "frame = m # ms" using ne by (cases frame) auto
    from ids frame obtain s where s: "measurementid m = PStr s" by auto
    have "violates measurement_column ?t1 (bind_measurement (schema t) m)"
    proof (rule violates_primary_key)
      show "primary_key (schema ?t1) = Some ''measurementid''" using pk by simp
      show "bind_measurement (schema t) m \<in> set (rows ?t1)" by (simp add: frame)
      show "measurement_column ''measurementid'' (bind_measurement (schema t) m) \<noteq> Null"
        by (simp add: measurementid_bind [OF s])
    qed
    then have "executemany measurement_column ?t1 (map (bind_measurement (schema ?t1)) frame)
        = Inl IntegrityError"
      by (simp add: frame)
    then show ?thesis
      using stored by (simp add: to_sql_def Let_def)
  qed
qed

text \<open>
  Claim C1. Let the measurements table exist with its primary key on \<open>measurementid\<close>,
  as \<open>setup_database\<close> creates it. Storing the two frames that \<open>process_data\<close> returns for
  a raw input a second time leaves the measurements table as the first \<open>store_data\<close> left
  it: the second call adds no row, so the row count is the same.
\<close>

theorem idempotent_measurement_ingestion:
  assumes "measurements db = Some t"
    and "primary_key (schema t) = Some ''measurementid''"
    and "process_data raw_data = ((measurements_frame, stations_frame), logged)"
  shows "measurements (fst (store_data (fst (store_data db measurements_frame stations_frame))
             measurements_frame stations_frame))
           = measurements (fst (store_data db measurements_frame stations_frame)) \<and>
         length (measurement_rows (fst (store_data (fst (store_data db measurements_frame stations_frame))
             measurements_frame stations_frame)))
           = length (measurement_rows (fst (store_data db measurements_frame stations_frame)))"
proof -
  let ?db1 = "fst (store_data db measurements_frame stations_frame)"
  let ?db2 = "fst (store_data ?db1 measurements_frame stations_frame)"
  have "measurements ?db2 = measurements ?db1"
  proof (cases measurements_frame)
    case None
    then show ?thesis by (simp add: measurements_store_data)
  next
    case (Some ms)
    with assms(3) process_data_frames [of raw_data ms stations_frame logged]
    have ne: "ms \<noteq> []" and ids: "\<forall>m\<in>set ms. \<exists>s. measurementid m = PStr s" by auto
    then obtain m ms' where ms: "ms = m # ms'" by (cases ms) auto
    obtain slot raised where first:
      "to_sql measurement_column bind_measurement (measurement_columns @ [''measurementid''])
         (Some t) ms Append measurements_dtype = (slot, raised)"
      by (cases "to_sql measurement_column bind_measurement (measurement_columns @ [''measurementid''])
         (Some t) ms Append measurements_dtype") auto
    have db1: "measurements ?db1 = slot"
      using first assms(1) Some ms by (simp add: measurements_store_data)
    have "measurements ?db2 =
        fst (to_sql measurement_column bind_measurement (measurement_columns @ [''measurementid''])
               slot ms Append measurements_dtype)"
      using Some ms db1 by (simp add: measurements_store_data)
    also have "\<dots> = slot"
      by (rule append_twice [OF assms(2) ids ne first])
    finally show ?thesis using db1 by simp
  qed
  then show ?thesis by (simp add: measurement_rows_def)
qed

subsection \<open>What store_data keeps and replaces\<close>

text \<open>
  Claim C9. \<open>store_data\<close> never deletes a measurement: the rows stored before are a
  prefix of the rows stored afterwards, whatever the stations frame is, and with no
  measurements frame the measurements table is unchanged, also when the stations table
  is replaced by a snapshot without the stations of those rows.
\<close>

theorem store_data_keeps_measurements:
  "prefix (measurement_rows db) (measurement_rows (fst (store_data db measurements_frame stations_frame))) \<and>
   (\<forall>r\<in>set (measurement_rows db).
      r \<in> set (measurement_rows (fst (store_data db measurements_frame stations_frame)))) \<and>
   measurements (fst (store_data db None stations_frame)) = measurements db"
proof -
  let ?db' = "fst (store_data db measurements_frame stations_frame)"
  have p: "prefix (measurement_rows db) (measurement_rows ?db')"
  proof (cases "\<exists>m ms. measurements_frame = Some (m # ms)")
    case False
    then have "measurements ?db' = measurements db"
      by (auto simp: measurements_store_data split: option.splits list.splits)
    then show ?thesis by (simp add: measurement_rows_def)
  next
    case True
    then obtain m ms where mf: "measurements_frame = Some (m # ms)" by blast
    show ?thesis
    proof (cases "measurements db")
      case None
      then show ?thesis by (simp add: measurement_rows_def)
    next
      case (Some t)
      obtain slot raised where first:
        "to_sql measurement_column bind_measurement (measurement_columns @ [''measurementid''])
           (Some t) (m # ms) Append measurements_dtype = (slot, raised)"
        by (cases "to_sql measurement_column bind_measurement (measurement_columns @ [''measurementid''])
           (Some t) (m # ms) Append measurements_dtype") auto
      have "measurements ?db' = slot"
        using first Some mf by (simp add: measurements_store_data)
      with to_sql_append [OF first] Some show ?thesis
        by (auto simp: measurement_rows_def)
    qed
  qed
  moreover from p have "\<forall>r\<in>set (measurement_rows db). r \<in> set (measurement_rows ?db')"
    by (auto dest: set_mono_prefix)
  moreover have "measurements (fst (store_data db None stations_frame)) = measurements db"
    by (simp add: measurements_store_data)
  ultimately show ?thesis by blast
qed


subsection \<open>Empty input and the cycle\<close>

text \<open>
  Claim C7. \<open>process_data\<close> returns (None, None) for None and for the empty list, and
  logs nothing; \<open>store_data\<close> with None for both frames leaves the store as it is and logs
  nothing.
\<close>

theorem empty_input_is_noop:
  "process_data None = ((None, None), []) \<and>
   process_data (Some []) = ((None, None), []) \<and>
   store_data db None None = (db, [])"
  by (simp add: process_data_def store_data_def)

text \<open>
  Claim C6. When \<open>fetch_weather_data\<close> returns None, or \<open>process_data\<close> returns
  (None, None), \<open>run_collection_cycle\<close> returns False and the store is the one it started
  with.
\<close>

theorem failed_stage_leaves_store:
  assumes "fst (fetch_weather_data resp) = None \<or>
           fst (process_data (fst (fetch_weather_data resp))) = (None, None)"
  shows "fst (run_collection_cycle resp db) = False \<and> fst (snd (run_collection_cycle resp db)) = db"
  using assms
  by (auto simp: run_collection_cycle_def Let_def split: prod.splits)

text \<open>
  Claim C10. A fetch that returns the empty list ends the cycle as a failed fetch does:
  the warning \<open>No_data_fetched\<close>, the result False, the store unchanged, and no message
  of \<open>process_data\<close> or \<open>store_data\<close>.
\<close>

theorem empty_fetch_skips_cycle:
  "run_collection_cycle (Station_measurements []) db
     = (False, db, [Cycle_start, Fetching, Fetched 0, No_data_fetched]) \<and>
   run_collection_cycle Request_exception db
     = (False, db, [Cycle_start, Fetching, Error_fetching, No_data_fetched]) \<and>
   level_of No_data_fetched = WARNING"
  by (simp add: run_collection_cycle_def)

subsection \<open>setup_database is idempotent\<close>

lemma create_index_present:
  "index_name i \<in> set (index_names db) \<Longrightarrow> create_index_if_not_exists i db = Inr db"
  by (simp add: create_index_if_not_exists_def)

lemma create_index_Inr:
  assumes "create_index_if_not_exists i db = Inr db'"
  shows "index_name i \<in> set (index_names db') \<and> set (index_names db) \<subseteq> set (index_names db') \<and>
         (stations db \<noteq> None \<longrightarrow> stations db' \<noteq> None) \<and>
         (measurements db \<noteq> None \<longrightarrow> measurements db' \<noteq> None)"
  using assms
  by (auto simp: create_index_if_not_exists_def index_names_def split: if_splits option.splits)

lemma create_tables_present:
  assumes "stations db \<noteq> None" "measurements db \<noteq> None"
  shows "db\<lparr>stations := create_table_if_not_exists ddl (stations db)\<rparr> = db"
    and "db\<lparr>measurements := create_table_if_not_exists ddl' (measurements db)\<rparr> = db"
  using assms by (auto simp: create_table_if_not_exists_def)

lemma setup_database_split: "setup_database db = create_indexes (with_tables db)"
  by (simp add: setup_database_def create_indexes_def with_tables_def Let_def split: sum.splits)

lemma with_tables_present:
  "stations db \<noteq> None \<Longrightarrow> measurements db \<noteq> None \<Longrightarrow> with_tables db = db"
  by (auto simp: with_tables_def create_table_if_not_exists_def)

lemma with_tables_tables: "stations (with_tables db) \<noteq> None \<and> measurements (with_tables db) \<noteq> None"
  by (auto simp: with_tables_def create_table_if_not_exists_def split: option.splits)

lemma create_indexes_tables:
  assumes "stations db \<noteq> None" "measurements db \<noteq> None"
  shows "stations (fst (create_indexes db)) \<noteq> None \<and> measurements (fst (create_indexes db)) \<noteq> None"
  using assms
  by (auto simp: create_indexes_def split: sum.splits dest!: create_index_Inr)

lemma create_indexes_idem: "create_indexes (fst (create_indexes db)) = create_indexes db"
proof (cases "create_index_if_not_exists uq_measurements_stationid_timestamp db")
  case Inl
  then show ?thesis by (simp add: create_indexes_def)
next
  case (Inr db3)
  note c1 = create_index_Inr [OF Inr]
  show ?thesis
  proof (cases "create_index_if_not_exists idx_measurements_stationid db3")
    case Inl
    with Inr c1 show ?thesis by (simp add: create_indexes_def create_index_present)
  next
    case (Inr db4)
    note c2 = create_index_Inr [OF Inr]
    have u4: "create_index_if_not_exists uq_measurements_stationid_timestamp db4 = Inr db4"
      using c1 c2 by (intro create_index_present) auto
    have s4: "create_index_if_not_exists idx_measurements_stationid db4 = Inr db4"
      using c2 by (intro create_index_present) auto
    show ?thesis
    proof (cases "create_index_if_not_exists idx_measurements_timestamp db4")
      case Inl
      with \<open>create_index_if_not_exists uq_measurements_stationid_timestamp db = Inr db3\<close> Inr u4 s4
      show ?thesis by (simp add: create_indexes_def)
    next
      case (Inr db5)
      note c3 = create_index_Inr [OF Inr]
      have "create_index_if_not_exists uq_measurements_stationid_timestamp db5 = Inr db5"
        using c1 c2 c3 by (intro create_index_present) auto
      moreover have "create_index_if_not_exists idx_measurements_stationid db5 = Inr db5"
        using c2 c3 by (intro create_index_present) auto
      moreover have "create_index_if_not_exists idx_measurements_timestamp db5 = Inr db5"
        using c3 by (intro create_index_present) auto
      ultimately show ?thesis
        using \<open>create_index_if_not_exists uq_measurements_stationid_timestamp db = Inr db3\<close>
          \<open>create_index_if_not_exists idx_measurements_stationid db3 = Inr db4\<close> Inr
        by (simp add: create_indexes_def)
    qed
  qed
qed

lemma setup_database_idem: "setup_database (fst (setup_database db)) = setup_database db"
proof -
  have "with_tables (fst (create_indexes (with_tables db))) = fst (create_indexes (with_tables db))"
    using create_indexes_tables [of "with_tables db"] with_tables_tables [of db]
    by (intro with_tables_present) auto
  then show ?thesis by (simp add: setup_database_split create_indexes_idem)
qed

lemma setup_times_Suc:
  "setup_times (Suc n) db =
     (fst (setup_database db), concat (replicate (Suc n) (snd (setup_database db))))"
proof (induction n arbitrary: db)
  case 0
  show ?case by (simp add: case_prod_beta)
next
  case (Suc n)
  have "setup_times (Suc (Suc n)) db =
      (fst (setup_times (Suc n) (fst (setup_database db))),
       snd (setup_database db) @ snd (setup_times (Suc n) (fst (setup_database db))))"
    by (subst setup_times.simps(2)) (simp add: case_prod_beta Let_def del: setup_times.simps)
  then show ?case
    by (simp only: Suc.IH setup_database_idem fst_conv snd_conv) simp
qed

lemma setup_database_set_up:
  assumes "stations db \<noteq> None" "measurements db \<noteq> None"
    and "set (map index_name [uq_measurements_stationid_timestamp, idx_measurements_stationid,
               idx_measurements_timestamp]) \<subseteq> set (index_names db)"
  shows "setup_database db = (db, [Setup_completed])"
  using assms
  by (simp add: setup_database_split with_tables_present create_indexes_def create_index_present)


lemmas store_defs =
  store_data_def to_sql_def setup_database_def create_index_if_not_exists_def index_names_def
  create_table_if_not_exists_def uq_measurements_stationid_timestamp_def
  idx_measurements_stationid_def idx_measurements_timestamp_def measurements_ddl_def
  stations_ddl_def measurements_dtype_def stations_dtype_def pandas_schema_def violates_def
  unique_conflict_def bind_station_def bind_measurement_def declared_type_def
  station_column_def measurement_column_def empty_database_def schema_after_setup_def
  measurement_rows_def

text \<open>
  Claim C8. For N of at least 1, N calls of \<open>setup_database\<close> leave the store that one
  call leaves, from any store, and each call logs what the first logged. From the empty
  store the result is the schema \<open>schema_after_setup\<close> (both tables with their keys, the
  foreign key with cascading delete, the unique index and the two other indexes) and no
  call logs an error; a store that has both tables and the three indexes is left as it
  is, again with no error.
\<close>

theorem schema_setup_idempotent:
  assumes "1 \<le> N"
  shows "fst (setup_times N db) = fst (setup_database db) \<and>
         snd (setup_times N db) = concat (replicate N (snd (setup_database db))) \<and>
         setup_times N empty_database = (schema_after_setup, replicate N Setup_completed) \<and>
         (stations db \<noteq> None \<and> measurements db \<noteq> None \<and>
          set (map index_name [uq_measurements_stationid_timestamp, idx_measurements_stationid,
                 idx_measurements_timestamp]) \<subseteq> set (index_names db)
          \<longrightarrow> setup_times N db = (db, replicate N Setup_completed))"
proof -
  obtain n where N: "N = Suc n" using assms by (cases N) auto
  have e: "setup_database empty_database = (schema_after_setup, [Setup_completed])"
    by (simp add: store_defs)
  have c: "concat (replicate k [Setup_completed]) = replicate k Setup_completed" for k
    by (induction k) auto
  show ?thesis
    unfolding N setup_times_Suc
    by (auto simp: e c setup_database_set_up simp del: replicate.simps concat.simps)
qed

theorem schema_setup_idempotent_witness:
  "(1::nat) \<le> 3 \<and>
   setup_times 3 empty_database
     = (schema_after_setup, [Setup_completed, Setup_completed, Setup_completed]) \<and>
   fst (setup_times 3 empty_database) = fst (setup_database empty_database)"
proof -
  have h: "(1::nat) \<le> 3" by simp
  have r: "replicate 3 Setup_completed = [Setup_completed, Setup_completed, Setup_completed]"
    by (simp add: eval_nat_numeral)
  from schema_setup_idempotent [OF h, of empty_database]
  have a: "fst (setup_times 3 empty_database) = fst (setup_database empty_database)"
    and b: "setup_times 3 empty_database = (schema_after_setup, replicate 3 Setup_completed)"
    by blast+
  from a b r h show ?thesis by (simp only: simp_thms)
qed

subsection \<open>The derived key\<close>

lemma with_measurementid_sel:
  "measurement_values.stationid (with_measurementid r) = measurement_values.stationid r"
  "timestamp (with_measurementid r) = timestamp r"
  "measurement_values.truncate (with_measurementid r) = r"
  by (simp_all add: with_measurementid_def measurement_values.extend_def measurement.fields_def
        measurement_values.truncate_def)


lemma measurement_key_sel:
  "measurement_key a = measurement_key b \<Longrightarrow>
   na_key (measurement_values.stationid a) = na_key (measurement_values.stationid b) \<and>
   na_key (timestamp a) = na_key (timestamp b)"
  by (simp add: measurement_key_def)



subsection \<open>A batch with a key that is taken\<close>

lemma violates_key_taken:
  "primary_key (schema t) = Some c \<Longrightarrow> col c r \<noteq> Null \<Longrightarrow> col c r \<in> col c ` set (rows t) \<Longrightarrow>
   violates col t r"
  by (auto simp: violates_def unique_conflict_def)

lemma executemany_key_taken:
  assumes "primary_key (schema t) = Some c"
    and "r \<in> set rs" and "col c r \<noteq> Null" and "col c r \<in> col c ` set (rows t)"
  shows "executemany col t rs = Inl IntegrityError"
  using assms
proof (induction rs arbitrary: t)
  case Nil
  then show ?case by simp
next
  case (Cons a rs)
  show ?case
  proof (cases "violates col t a")
    case True
    then show ?thesis by simp
  next
    case False
    with Cons.prems violates_key_taken [of t c col a] have "r \<noteq> a" by auto
    with Cons.prems have "r \<in> set rs" by simp
    moreover have "primary_key (schema (t\<lparr>rows := rows t @ [a]\<rparr>)) = Some c"
      using Cons.prems by simp
    moreover have "col c r \<in> col c ` set (rows (t\<lparr>rows := rows t @ [a]\<rparr>))"
      using Cons.prems by simp
    ultimately have "executemany col (t\<lparr>rows := rows t @ [a]\<rparr>) rs = Inl IntegrityError"
      using Cons.prems(3) by (intro Cons.IH)
    with False show ?thesis by simp
  qed
qed

lemma to_sql_key_taken:
  assumes "primary_key (schema t) = Some ''measurementid''"
    and "m \<in> set frame" and "measurementid m = PStr s"
    and "Text s \<in> measurementid ` set (rows t)"
  shows "\<exists>e. to_sql measurement_column bind_measurement cols (Some t) frame Append dtype
           = (Some t, Some e)"
proof (cases "set cols \<subseteq> set (map fst (columns (schema t)))")
  case False
  then show ?thesis by (simp add: to_sql_def)
next
  case True
  have c: "measurement_column ''measurementid'' = measurementid"
    by (rule ext) (simp add: measurement_column_def)
  have mb: "measurementid (bind_measurement (schema t) m) = Text s"
    by (simp add: bind_measurement_def assms(3))
  have "executemany measurement_column t (map (bind_measurement (schema t)) frame)
      = Inl IntegrityError"
  proof (rule executemany_key_taken [OF assms(1)])
    show "bind_measurement (schema t) m \<in> set (map (bind_measurement (schema t)) frame)"
      using assms(2) by simp
    show "measurement_column ''measurementid'' (bind_measurement (schema t) m) \<noteq> Null"
      by (simp add: measurementid_bind [OF assms(3)])
    show "measurement_column ''measurementid'' (bind_measurement (schema t) m)
        \<in> measurement_column ''measurementid'' ` set (rows t)"
      using assms(4) mb by (simp add: c)
  qed
  with True show ?thesis by (simp add: to_sql_def)
qed

lemma store_data_frames:
  "store_data db (Some (m # ms)) (Some (s # ss)) =
     (case to_sql measurement_column bind_measurement (measurement_columns @ [''measurementid''])
             (measurements db) (m # ms) Append measurements_dtype of
        (slot, Some e) \<Rightarrow>
          (db\<lparr>stations := fst (to_sql station_column bind_station station_columns (stations db)
                                  (s # ss) Replace stations_dtype),
              measurements := slot\<rparr>,
           [Stored_stations (length (s # ss)), Error_storing e])
      | (slot, None) \<Rightarrow>
          (db\<lparr>stations := fst (to_sql station_column bind_station station_columns (stations db)
                                  (s # ss) Replace stations_dtype),
              measurements := slot\<rparr>,
           [Stored_stations (length (s # ss)), Stored_measurements (length (m # ms))]))"
  by (simp add: store_data_def to_sql_created split: prod.splits option.splits)

lemma has_column_examples:
  "\<forall>c\<in>set (measurement_columns @ station_columns). has_column [example_record] c"
  "\<forall>c\<in>set (measurement_columns @ station_columns). has_column [example_record, second_record] c"
  by (simp_all add: has_column_def measurement_columns_def station_columns_def example_record_def)

lemma example_cells:
  "measurement_values.stationid (measurement_row example_record) = PStr ''06240''"
  "timestamp (measurement_row example_record) = PStr ''2024-01-01T10:00:00''"
  "measurement_values.stationid (measurement_row second_record) = PStr ''06260''"
  "timestamp (measurement_row second_record) = PStr ''2024-01-01T10:00:00''"
  "station.stationid (station_row example_record) = PStr ''06240''"
  "station.stationid (station_row second_record) = PStr ''06260''"
  by (simp_all add: measurement_row_def station_row_def cell_def example_record_def second_record_def)

lemma example_keys:
  "measurement_key (measurement_row second_record) \<noteq> measurement_key (measurement_row example_record)"
  "station_key (station_row second_record) \<noteq> station_key (station_row example_record)"
proof -
  have "na_key (measurement_values.stationid (measurement_row second_record))
      \<noteq> na_key (measurement_values.stationid (measurement_row example_record))"
    by (simp add: example_cells)
  then show "measurement_key (measurement_row second_record) \<noteq> measurement_key (measurement_row example_record)"
    by (auto dest: measurement_key_sel)
  have "na_key (station.stationid (station_row second_record))
      \<noteq> na_key (station.stationid (station_row example_record))"
    by (simp add: example_cells)
  then show "station_key (station_row second_record) \<noteq> station_key (station_row example_record)"
    by (auto simp: station_key_def)
qed

lemma process_data_examples:
  "process_data (Some [example_record])
     = ((Some [with_measurementid (measurement_row example_record)],
         Some [station_row example_record]), [Processed 1 1])"
  "process_data (Some [example_record, second_record])
     = ((Some [with_measurementid (measurement_row example_record),
               with_measurementid (measurement_row second_record)],
         Some [station_row example_record, station_row second_record]), [Processed 2 2])"
  by (simp_all add: process_data_present has_column_examples example_keys)

lemma example_measurementid:
  "measurementid (with_measurementid (measurement_row example_record))
     = PStr ''06240_2024-01-01T10:00:00''"
  by (simp add: measurementid_with_measurementid example_cells)

lemma stored_once_measurements:
  "measurements stored_once =
     Some \<lparr>schema = measurements_ddl,
           indexes = [uq_measurements_stationid_timestamp, idx_measurements_stationid,
                      idx_measurements_timestamp],
           rows = [bind_measurement measurements_ddl
                     (with_measurementid (measurement_row example_record))]\<rparr>"
proof -
  let ?b = "bind_measurement measurements_ddl (with_measurementid (measurement_row example_record))"
  have ty: "declared_type measurements_ddl ''stationid'' = ''TEXT''"
    "declared_type measurements_ddl ''timestamp'' = ''TEXT''"
    by (simp_all add: declared_type_def measurements_ddl_def)
  have cells: "measurement_column ''stationid'' ?b = Text ''06240''"
    "measurement_column ''timestamp'' ?b = Text ''2024-01-01T10:00:00''"
    by (simp_all add: measurement_column_def bind_measurement_def with_measurementid_sel
          example_cells ty)
  have nn: "not_null measurements_ddl = [''stationid'', ''timestamp'']"
    and pk: "primary_key measurements_ddl = Some ''measurementid''"
    and cols: "set (measurement_columns @ [''measurementid''])
        \<subseteq> set (map fst (columns measurements_ddl))"
    by (simp_all add: measurements_ddl_def measurement_columns_def)
  have "\<not> violates measurement_column
      \<lparr>schema = measurements_ddl,
       indexes = [uq_measurements_stationid_timestamp, idx_measurements_stationid,
                  idx_measurements_timestamp],
       rows = []\<rparr> ?b"
    by (simp add: violates_def unique_conflict_def nn pk cells)
  with cols show ?thesis
    by (simp add: stored_once_def process_data_examples measurements_store_data
          schema_after_setup_def to_sql_def)
qed

text \<open>
  Claim C2, evaluated on the code. The store holds the measurement of station 06240. The
  next batch has that measurement again and a new one of station 06260. The plain INSERT
  of \<open>to_sql\<close> raises IntegrityError on the first row, the transaction is rolled back, the
  new row of station 06260 is not stored, and \<open>store_data\<close> logs the error.
\<close>

theorem duplicate_key_rejects_whole_batch:
  "length (measurement_rows stored_once) = 1 \<and>
   fst (process_data (Some [example_record, second_record]))
     = (Some [with_measurementid (measurement_row example_record),
              with_measurementid (measurement_row second_record)],
        Some [station_row example_record, station_row second_record]) \<and>
   measurement_rows
     (fst (store_data stored_once
             (Some [with_measurementid (measurement_row example_record),
                    with_measurementid (measurement_row second_record)])
             (Some [station_row example_record, station_row second_record])))
     = measurement_rows stored_once \<and>
   snd (store_data stored_once
          (Some [with_measurementid (measurement_row example_record),
                 with_measurementid (measurement_row second_record)])
          (Some [station_row example_record, station_row second_record]))
     = [Stored_stations 2, Error_storing IntegrityError]"
proof -
  let ?frame = "[with_measurementid (measurement_row example_record),
                 with_measurementid (measurement_row second_record)]"
  let ?t = "\<lparr>schema = measurements_ddl,
           indexes = [uq_measurements_stationid_timestamp, idx_measurements_stationid,
                      idx_measurements_timestamp],
           rows = [bind_measurement measurements_ddl
                     (with_measurementid (measurement_row example_record))]\<rparr>"
  have cols: "set (measurement_columns @ [''measurementid''])
        \<subseteq> set (map fst (columns measurements_ddl))"
    by (simp add: measurements_ddl_def measurement_columns_def)
  have "executemany measurement_column ?t (map (bind_measurement (schema ?t)) ?frame)
      = Inl IntegrityError"
  proof (rule executemany_key_taken [where c = "''measurementid''"
        and r = "bind_measurement measurements_ddl (with_measurementid (measurement_row example_record))"])
    show "primary_key (schema ?t) = Some ''measurementid''" by (simp add: measurements_ddl_def)
    show "bind_measurement measurements_ddl (with_measurementid (measurement_row example_record))
        \<in> set (map (bind_measurement (schema ?t)) ?frame)" by simp
    show "measurement_column ''measurementid''
        (bind_measurement measurements_ddl (with_measurementid (measurement_row example_record))) \<noteq> Null"
      by (simp add: measurementid_bind [OF example_measurementid])
    show "measurement_column ''measurementid''
        (bind_measurement measurements_ddl (with_measurementid (measurement_row example_record)))
        \<in> measurement_column ''measurementid'' ` set (rows ?t)" by simp
  qed
  with cols have "to_sql measurement_column bind_measurement (measurement_columns @ [''measurementid''])
      (Some ?t) ?frame Append measurements_dtype = (Some ?t, Some IntegrityError)"
    by (simp add: to_sql_def)
  then show ?thesis
    by (simp add: store_data_frames stored_once_measurements process_data_examples
          measurement_rows_def)
qed

subsection \<open>Records that lack a field\<close>






subsection \<open>The properties on the example data\<close>

theorem idempotent_measurement_ingestion_witness:
  "measurements schema_after_setup
     = Some \<lparr>schema = measurements_ddl,
             indexes = [uq_measurements_stationid_timestamp, idx_measurements_stationid,
                        idx_measurements_timestamp],
             rows = []\<rparr> \<and>
   primary_key measurements_ddl = Some ''measurementid'' \<and>
   length (measurement_rows
     (fst (store_data stored_once
             (fst (fst (process_data (Some [example_record]))))
             (snd (fst (process_data (Some [example_record]))))))) = 1 \<and>
   length (measurement_rows stored_once) = 1"
proof -
  have m: "measurements schema_after_setup
     = Some \<lparr>schema = measurements_ddl,
             indexes = [uq_measurements_stationid_timestamp, idx_measurements_stationid,
                        idx_measurements_timestamp],
             rows = []\<rparr>"
    by (simp add: schema_after_setup_def)
  have pk: "primary_key (schema \<lparr>schema = measurements_ddl,
             indexes = [uq_measurements_stationid_timestamp, idx_measurements_stationid,
                        idx_measurements_timestamp],
             rows = ([] :: sqlval measurement list)\<rparr>) = Some ''measurementid''"
    by (simp add: measurements_ddl_def)
  have p: "process_data (Some [example_record])
     = ((fst (fst (process_data (Some [example_record]))),
         snd (fst (process_data (Some [example_record])))),
        snd (process_data (Some [example_record])))"
    by simp
  have one: "length (measurement_rows stored_once) = 1"
    by (simp add: measurement_rows_def stored_once_measurements)
  from idempotent_measurement_ingestion [OF m pk p] one m pk
  show ?thesis by (simp add: stored_once_def)
qed

lemma station_snapshot_ids:
  "map station.stationid
     (map (bind_station (pandas_schema stations_dtype station_columns)) [station_row second_record])
     = [Text ''06260'']"
  by (simp add: bind_station_def declared_type_def pandas_schema_def stations_dtype_def
        station_columns_def example_cells)

theorem store_data_keeps_measurements_witness:
  "prefix (measurement_rows stored_once)
     (measurement_rows (fst (store_data stored_once None (Some [station_row second_record])))) \<and>
   measurements (fst (store_data stored_once None (Some [station_row second_record])))
     = measurements stored_once \<and>
   map measurement_values.stationid (measurement_rows stored_once) = [Text ''06240''] \<and>
   map station.stationid
     (case stations (fst (store_data stored_once None (Some [station_row second_record]))) of
        None \<Rightarrow> [] | Some t \<Rightarrow> rows t) = [Text ''06260'']"
proof -
  have "declared_type measurements_ddl ''stationid'' = ''TEXT''"
    by (simp add: declared_type_def measurements_ddl_def)
  then have "map measurement_values.stationid (measurement_rows stored_once) = [Text ''06240'']"
    by (simp add: measurement_rows_def stored_once_measurements bind_measurement_def
          with_measurementid_sel example_cells)
  moreover have "map station.stationid
     (case stations (fst (store_data stored_once None (Some [station_row second_record]))) of
        None \<Rightarrow> [] | Some t \<Rightarrow> rows t) = [Text ''06260'']"
    using station_snapshot_ids by (simp add: stations_store_data)
  ultimately show ?thesis
    using store_data_keeps_measurements [of stored_once None "Some [station_row second_record]"]
    by simp
qed


theorem empty_input_is_noop_witness:
  "process_data (Some []) = ((None, None), []) \<and>
   store_data schema_after_setup None None = (schema_after_setup, [])"
  using empty_input_is_noop [of schema_after_setup] by simp

theorem failed_stage_leaves_store_witness:
  "fst (process_data (fst (fetch_weather_data (Station_measurements [record_without_regio]))))
     = (None, None) \<and>
   fst (run_collection_cycle (Station_measurements [record_without_regio]) stored_once) = False \<and>
   fst (snd (run_collection_cycle (Station_measurements [record_without_regio]) stored_once))
     = stored_once"
proof -
  have "\<not> has_column [record_without_regio] ''regio''"
    by (simp add: has_column_def record_without_regio_def example_record_def)
  then have "\<not> (\<forall>c\<in>set (measurement_columns @ station_columns).
      has_column [record_without_regio] c)"
    by (simp add: station_columns_def)
  from process_data_absent [OF _ this]
  have h: "fst (process_data (fst (fetch_weather_data (Station_measurements [record_without_regio]))))
     = (None, None)"
    by auto
  then have "fst (fetch_weather_data (Station_measurements [record_without_regio])) = None \<or>
     fst (process_data (fst (fetch_weather_data (Station_measurements [record_without_regio]))))
       = (None, None)" by (rule disjI2)
  from failed_stage_leaves_store [OF this, of stored_once] h show ?thesis by simp
qed

theorem empty_fetch_skips_cycle_witness:
  "run_collection_cycle (Station_measurements []) stored_once
     = (False, stored_once, [Cycle_start, Fetching, Fetched 0, No_data_fetched])"
  using empty_fetch_skips_cycle [of stored_once] by simp

subsection \<open>The primary key of the measurements table stays\<close>

lemma create_index_schema:
  assumes "create_index_if_not_exists i db = Inr db'" and "measurements db = Some t"
  shows "\<exists>t'. measurements db' = Some t' \<and> schema t' = schema t \<and> rows t' = rows t"
  using assms
  by (auto simp: create_index_if_not_exists_def split: if_splits)

lemma create_indexes_schema:
  assumes "measurements db = Some t"
  shows "\<exists>t'. measurements (fst (create_indexes db)) = Some t' \<and> schema t' = schema t \<and>
           rows t' = rows t"
proof (cases "create_index_if_not_exists uq_measurements_stationid_timestamp db")
  case Inl
  with assms show ?thesis by (simp add: create_indexes_def)
next
  case (Inr db3)
  from create_index_schema [OF Inr assms] obtain t3 where
    t3: "measurements db3 = Some t3" "schema t3 = schema t" "rows t3 = rows t" by blast
  show ?thesis
  proof (cases "create_index_if_not_exists idx_measurements_stationid db3")
    case Inl
    with \<open>create_index_if_not_exists uq_measurements_stationid_timestamp db = Inr db3\<close> t3
    show ?thesis by (simp add: create_indexes_def)
  next
    case (Inr db4)
    from create_index_schema [OF Inr t3(1)] t3 obtain t4 where
      t4: "measurements db4 = Some t4" "schema t4 = schema t" "rows t4 = rows t" by auto
    show ?thesis
    proof (cases "create_index_if_not_exists idx_measurements_timestamp db4")
      case Inl
      with \<open>create_index_if_not_exists uq_measurements_stationid_timestamp db = Inr db3\<close>
        \<open>create_index_if_not_exists idx_measurements_stationid db3 = Inr db4\<close> t4
      show ?thesis by (simp add: create_indexes_def)
    next
      case (Inr db5)
      from create_index_schema [OF Inr t4(1)] t4 obtain t5 where
        "measurements db5 = Some t5" "schema t5 = schema t" "rows t5 = rows t" by auto
      with \<open>create_index_if_not_exists uq_measurements_stationid_timestamp db = Inr db3\<close>
        \<open>create_index_if_not_exists idx_measurements_stationid db3 = Inr db4\<close> Inr
      show ?thesis by (simp add: create_indexes_def)
    qed
  qed
qed

lemma setup_database_primary_key:
  assumes "measurements db = None"
  shows "\<exists>t. measurements (fst (setup_database db)) = Some t \<and>
           primary_key (schema t) = Some ''measurementid'' \<and> rows t = []"
proof -
  have "measurements (with_tables db) = Some \<lparr>schema = measurements_ddl, indexes = [], rows = []\<rparr>"
    using assms by (simp add: with_tables_def create_table_if_not_exists_def)
  from create_indexes_schema [OF this] show ?thesis
    by (auto simp: setup_database_split measurements_ddl_def)
qed

lemma store_data_keeps_schema:
  assumes "measurements db = Some t"
  shows "\<exists>t'. measurements (fst (store_data db measurements_frame stations_frame)) = Some t' \<and>
           schema t' = schema t \<and> indexes t' = indexes t"
proof (cases "\<exists>m ms. measurements_frame = Some (m # ms)")
  case False
  then have "measurements (fst (store_data db measurements_frame stations_frame)) = measurements db"
    by (auto simp: measurements_store_data split: option.splits list.splits)
  with assms show ?thesis by simp
next
  case True
  then obtain m ms where mf: "measurements_frame = Some (m # ms)" by blast
  obtain slot raised where first:
    "to_sql measurement_column bind_measurement (measurement_columns @ [''measurementid''])
       (Some t) (m # ms) Append measurements_dtype = (slot, raised)"
    by (cases "to_sql measurement_column bind_measurement (measurement_columns @ [''measurementid''])
       (Some t) (m # ms) Append measurements_dtype") auto
  have "measurements (fst (store_data db measurements_frame stations_frame)) = slot"
    using first assms mf by (simp add: measurements_store_data)
  with to_sql_append [OF first] show ?thesis by auto
qed

end
